theory Spec2Isabelle
  imports Main "HOL-Library.Multiset" "HOL-Library.Sublist"
begin

section \<open>Data model\<close>

text \<open>
  The server keeps three pieces of state: the Mongo collection of documents
  (\<open>models/Document.js\<close>), and the two module-level maps of
  \<open>socket/socketHandler.js\<close>, \<open>documentShadows\<close> and \<open>offlineEdits\<close>.
  Identifiers (document ids, user ids, socket ids) are strings. Timestamps are
  milliseconds since the epoch, as \<open>Date.now()\<close> and the numeric value of a
  \<open>Date\<close> are.
\<close>

type_synonym docId = string
type_synonym userId = string
type_synonym sockId = string

text \<open>\<open>versionSchema\<close>: one entry of the version history.\<close>

record version =
  v_content :: string
  v_timestamp :: int
  v_author :: userId
  v_changeDescription :: string

text \<open>
  \<open>documentSchema\<close>. The roster \<open>activeEditors\<close> is left out: none of the
  operations below reads or writes it.
\<close>

record document =
  title :: string
  content :: string
  owner :: userId
  collaborators :: "userId list"
  versions :: "version list"
  currentVersion :: int
  lastModified :: int

text \<open>
  One buffered offline edit, as \<open>save-offline-edit\<close> pushes it. The type
  \<open>'p\<close> is the patch bundle of the diff-match-patch library.
\<close>

record 'p offline_edit =
  e_patches :: 'p
  e_timestamp :: int
  e_userId :: userId
  e_username :: string

record 'p server =
  db :: "docId \<rightharpoonup> document"
  documentShadows :: "docId \<rightharpoonup> string"
  offlineEdits :: "string \<rightharpoonup> 'p offline_edit list"

text \<open>\<open>socket.id\<close> and \<open>socket.user\<close> of an authenticated connection.\<close>

record session =
  sid :: sockId
  uid :: userId
  uname :: string

text \<open>
  What a handler takes from outside the repository:
  \<^item> \<open>patch_apply\<close> is \<open>dmp.patch_apply(patches, text)\<close>, returning the patched
    text and one boolean per hunk;
  \<^item> \<open>clock k\<close> is the \<open>k\<close>-th reading of the clock (\<open>new Date()\<close>,
    \<open>Date.now()\<close>) in the order the handler's text makes them;
  \<^item> \<open>save_ok k\<close> tells whether the \<open>k\<close>-th \<open>document.save()\<close> of the
    handler resolves (True) or rejects (False), for whatever reason the store
    has, schema validation included.
  Reads (\<open>Document.findById\<close>) are lookups in \<open>db\<close>.
\<close>

record 'p env =
  patch_apply :: "'p \<Rightarrow> string \<Rightarrow> string \<times> bool list"
  clock :: "nat \<Rightarrow> int"
  save_ok :: "nat \<Rightarrow> bool"

datatype err = DocumentNotFound | AccessDenied | InvalidVersionIndex | PersistenceFailure

text \<open>Server-to-client events with their payloads.\<close>

datatype 'p event =
    ErrorEv err
  | SyncRequired string int
  | DocumentChange 'p userId string
  | VersionCreated int userId string int
  | DocumentUpdated string userId string
  | OfflineEditSaved bool
  | OfflineEditsSynced bool nat

text \<open>
  The three ways the handlers address an event: \<open>socket.emit\<close>,
  \<open>socket.to(room).emit\<close> and \<open>io.to(room).emit\<close>.
\<close>

datatype target = ToSender | ToOthersInRoom docId | ToRoom docId

fun recipients :: "(docId \<Rightarrow> sockId set) \<Rightarrow> sockId \<Rightarrow> target \<Rightarrow> sockId set" where
  "recipients rooms s ToSender = {s}"
| "recipients rooms s (ToOthersInRoom d) = rooms d - {s}"
| "recipients rooms s (ToRoom d) = rooms d"

section \<open>Decimal rendering of numbers in template literals\<close>

definition digit :: "nat \<Rightarrow> char" where
  "digit n = ''0123456789'' ! n"

text \<open>
  \<open>`${k}`\<close> for an integer \<open>k\<close>: its decimal digits, most significant
  first, after a minus sign when it is negative.
\<close>

function decimal :: "nat \<Rightarrow> string" where
  "decimal n = (if n div 10 = 0 then [digit n] else decimal (n div 10) @ [digit (n mod 10)])"
  by pat_completeness auto
termination
  by (relation "measure (\<lambda>n. n)") auto

declare decimal.simps [simp del]

definition number_to_string :: "int \<Rightarrow> string" where
  "number_to_string i = (if 0 \<le> i then decimal (nat i) else CHR ''-'' # decimal (nat (- i)))"



section \<open>The document model's methods\<close>

text \<open>
  \<open>document.save()\<close> on a document fetched under \<open>d\<close>: it writes the
  in-memory object back under that id, or rejects.
\<close>

definition save :: "'p env \<Rightarrow> nat \<Rightarrow> 'p server \<Rightarrow> docId \<Rightarrow> document \<Rightarrow> err + 'p server" where
  "save env k st d doc =
     (if save_ok env k then Inr (st\<lparr>db := (db st)(d \<mapsto> doc)\<rparr>) else Inl PersistenceFailure)"

text \<open>
  \<open>addVersion(content, author, changeDescription = 'Document updated')\<close>.
  The method mutates \<open>this\<close> and returns \<open>this.save()\<close>; the model returns
  the mutated object together with the outcome \<open>sv\<close> of saving it. \<open>t1\<close> and
  \<open>t2\<close> are the two clock readings of the method, in order.
\<close>

definition addVersion ::
  "(document \<Rightarrow> 'r) \<Rightarrow> int \<Rightarrow> int \<Rightarrow> document \<Rightarrow> string \<Rightarrow> userId \<Rightarrow> string option
     \<Rightarrow> document \<times> 'r" where
  "addVersion sv t1 t2 this content' author changeDescription =
     (let pushed = versions this @
            [\<lparr>v_content = content', v_timestamp = t1, v_author = author,
              v_changeDescription =
                (case changeDescription of None \<Rightarrow> ''Document updated'' | Some c \<Rightarrow> c)\<rparr>];
          this' = this\<lparr>versions := pushed,
                       currentVersion := int (length pushed) - 1,
                       content := content',
                       lastModified := t2\<rparr>
      in (this', sv this'))"

text \<open>
  \<open>revertToVersion(versionIndex, userId)\<close>. The \<open>throw\<close> is the \<open>Inl\<close>
  outcome; the first component is \<open>this\<close> after the call.
\<close>

definition revertToVersion ::
  "(document \<Rightarrow> 'r) \<Rightarrow> int \<Rightarrow> int \<Rightarrow> document \<Rightarrow> int \<Rightarrow> userId
     \<Rightarrow> document \<times> (err + 'r)" where
  "revertToVersion sv t1 t2 this versionIndex userId' =
     (if versionIndex \<ge> 0 \<and> versionIndex < int (length (versions this)) then
        (let versionContent = v_content (versions this ! nat versionIndex);
             (this', r) = addVersion sv t1 t2 this versionContent userId'
                            (Some (''Reverted to version '' @ number_to_string (versionIndex + 1)))
         in (this', Inr r))
      else (this, Inl InvalidVersionIndex))"

section \<open>The shadow store and the patch helper\<close>

text \<open>
  \<open>getDocumentShadow\<close>: a cached shadow is returned as it is; otherwise the
  document is read and its content installed as the shadow. A missing
  document is the \<open>throw\<close>.
\<close>

definition getDocumentShadow :: "'p server \<Rightarrow> docId \<Rightarrow> err + (string \<times> 'p server)" where
  "getDocumentShadow st documentId =
     (case documentShadows st documentId of
        Some shadow \<Rightarrow> Inr (shadow, st)
      | None \<Rightarrow>
          (case db st documentId of
             None \<Rightarrow> Inl DocumentNotFound
           | Some document \<Rightarrow>
               Inr (content document,
                    st\<lparr>documentShadows := (documentShadows st)(documentId \<mapsto> content document)\<rparr>)))"

definition updateDocumentShadow :: "'p server \<Rightarrow> docId \<Rightarrow> string \<Rightarrow> 'p server" where
  "updateDocumentShadow st documentId newContent =
     st\<lparr>documentShadows := (documentShadows st)(documentId \<mapsto> newContent)\<rparr>"

text \<open>\<open>applyPatch\<close>: the bundle succeeds when every hunk's result is true.\<close>

definition applyPatch :: "'p env \<Rightarrow> string \<Rightarrow> 'p \<Rightarrow> string \<times> bool" where
  "applyPatch env text' patches =
     (let (patchedText, results) = patch_apply env patches text';
          success = list_all (\<lambda>result. result) results
      in (patchedText, success))"

text \<open>
  The shadow a handler will work on: the cached one, or the stored content
  when nothing is cached yet. This is what \<open>getDocumentShadow\<close> returns.
\<close>

definition shadow_view :: "'p server \<Rightarrow> docId \<Rightarrow> string option" where
  "shadow_view st d =
     (case documentShadows st d of
        Some shadow \<Rightarrow> Some shadow
      | None \<Rightarrow> map_option content (db st d))"

section \<open>Socket handlers\<close>

text \<open>
  A handler maps the server state to the new state and the list of events it
  emits, each with its addressing. Handlers run one at a time.
\<close>

type_synonym 'p outcome = "'p server \<times> (target \<times> 'p event) list"

text \<open>
  \<open>socket.on('document-change', ...)\<close>. Clock readings: 0 \<open>lastModified\<close>,
  1 the \<open>Date.now()\<close> of the snapshot test, 2 and 3 inside \<open>addVersion\<close>,
  4 the timestamp of \<open>version-created\<close>. Saves: 0 the handler's own, 1 the
  one of \<open>addVersion\<close>. \<open>clientShadowVersion\<close> is received and not used.
\<close>

definition document_change ::
  "'p env \<Rightarrow> 'p server \<Rightarrow> session \<Rightarrow> docId \<Rightarrow> 'p \<Rightarrow> int \<Rightarrow> 'p outcome" where
  "document_change env st socket documentId patches clientShadowVersion =
     (case db st documentId of
        None \<Rightarrow> (st, [(ToSender, ErrorEv DocumentNotFound)])
      | Some document \<Rightarrow>
          (case getDocumentShadow st documentId of
             Inl e \<Rightarrow> (st, [(ToSender, ErrorEv e)])
           | Inr (serverShadow, st1) \<Rightarrow>
               (let (newServerShadow, success) = applyPatch env serverShadow patches in
                if \<not> success then
                  (st1, [(ToSender, SyncRequired (content document) (currentVersion document))])
                else
                  (let st2 = updateDocumentShadow st1 documentId newServerShadow;
                       document1 = document\<lparr>content := newServerShadow,
                                             lastModified := clock env 0\<rparr>
                   in case save env 0 st2 documentId document1 of
                        Inl e \<Rightarrow> (st2, [(ToSender, ErrorEv e)])
                      | Inr st3 \<Rightarrow>
                          (let relayed = [(ToOthersInRoom documentId,
                                           DocumentChange patches (uid socket) (uname socket))]
                           in if length (versions document1) = 0 \<or>
                                 clock env 1 - v_timestamp (last (versions document1)) > 60000
                              then
                                (let (document2, saved) =
                                       addVersion (save env 1 st3 documentId)
                                         (clock env 2) (clock env 3) document1 newServerShadow
                                         (uid socket) (Some ''Auto-saved version'')
                                 in case saved of
                                      Inl e \<Rightarrow> (st3, relayed @ [(ToSender, ErrorEv e)])
                                    | Inr st4 \<Rightarrow>
                                        (st4, relayed @
                                           [(ToRoom documentId,
                                             VersionCreated (currentVersion document2)
                                               (uid socket) (uname socket) (clock env 4))]))
                              else (st3, relayed))))))"

text \<open>The key of the offline buffer: \<open>`${socket.user.id}-${documentId}`\<close>.\<close>

definition offline_key :: "userId \<Rightarrow> docId \<Rightarrow> string" where
  "offline_key u documentId = u @ ''-'' @ documentId"

text \<open>\<open>offlineEdits.get(key) || []\<close>.\<close>

definition buffered :: "'p server \<Rightarrow> string \<Rightarrow> 'p offline_edit list" where
  "buffered st key = (case offlineEdits st key of None \<Rightarrow> [] | Some edits \<Rightarrow> edits)"

text \<open>\<open>socket.on('save-offline-edit', ...)\<close>.\<close>

definition save_offline_edit ::
  "'p server \<Rightarrow> session \<Rightarrow> docId \<Rightarrow> 'p \<Rightarrow> int \<Rightarrow> 'p outcome" where
  "save_offline_edit st socket documentId patches timestamp =
     (let key = offline_key (uid socket) documentId;
          st1 = (if offlineEdits st key = None
                 then st\<lparr>offlineEdits := (offlineEdits st)(key \<mapsto> [])\<rparr> else st);
          st2 = st1\<lparr>offlineEdits := (offlineEdits st1)(key \<mapsto>
                   buffered st1 key @
                     [\<lparr>e_patches = patches, e_timestamp = timestamp,
                       e_userId = uid socket, e_username = uname socket\<rparr>])\<rparr>
      in (st2, [(ToSender, OfflineEditSaved True)]))"

text \<open>
  The replay loop of \<open>sync-offline-edits\<close>: \<open>serverShadow\<close> and
  \<open>appliedCount\<close> are the loop's two variables.
\<close>

fun replay :: "'p env \<Rightarrow> 'p offline_edit list \<Rightarrow> string \<Rightarrow> nat \<Rightarrow> string \<times> nat" where
  "replay env [] serverShadow appliedCount = (serverShadow, appliedCount)"
| "replay env (edit # rest) serverShadow appliedCount =
     (let (patchedText, success) = applyPatch env serverShadow (e_patches edit) in
      if success then replay env rest patchedText (appliedCount + 1)
      else replay env rest serverShadow appliedCount)"

text \<open>
  \<open>socket.on('sync-offline-edits', ...)\<close>. The comparator
  \<open>a.timestamp - b.timestamp\<close> sorts ascending and the sort is stable and in
  place, so the stored array is the sorted one from then on. Clock readings:
  0 \<open>lastModified\<close>, 1 and 2 inside \<open>addVersion\<close>, 3 the timestamp of
  \<open>version-created\<close>. Saves: 0 the handler's own, 1 the one of
  \<open>addVersion\<close>.
\<close>

definition sync_offline_edits :: "'p env \<Rightarrow> 'p server \<Rightarrow> session \<Rightarrow> docId \<Rightarrow> 'p outcome" where
  "sync_offline_edits env st socket documentId =
     (let key = offline_key (uid socket) documentId;
          userOfflineEdits = buffered st key
      in if length userOfflineEdits = 0 then
           (st, [(ToSender, OfflineEditsSynced True 0)])
         else
           (case db st documentId of
              None \<Rightarrow> (st, [(ToSender, ErrorEv DocumentNotFound)])
            | Some document \<Rightarrow>
                (case getDocumentShadow st documentId of
                   Inl e \<Rightarrow> (st, [(ToSender, ErrorEv e)])
                 | Inr (serverShadow0, st0) \<Rightarrow>
                     (let sorted_edits = sort_key e_timestamp userOfflineEdits;
                          st1 = st0\<lparr>offlineEdits := (offlineEdits st0)(key \<mapsto> sorted_edits)\<rparr>;
                          (serverShadow, appliedCount) = replay env sorted_edits serverShadow0 0
                      in if appliedCount > 0 then
                           (let st2 = updateDocumentShadow st1 documentId serverShadow;
                                document1 = document\<lparr>content := serverShadow,
                                                      lastModified := clock env 0\<rparr>
                            in case save env 0 st2 documentId document1 of
                                 Inl e \<Rightarrow> (st2, [(ToSender, ErrorEv e)])
                               | Inr st3 \<Rightarrow>
                                   (let (document2, saved) =
                                          addVersion (save env 1 st3 documentId)
                                            (clock env 1) (clock env 2) document1 serverShadow
                                            (uid socket)
                                            (Some (''Synced '' @ decimal appliedCount
                                                   @ '' offline edits''))
                                    in case saved of
                                         Inl e \<Rightarrow> (st3, [(ToSender, ErrorEv e)])
                                       | Inr st4 \<Rightarrow>
                                           (st4\<lparr>offlineEdits := (offlineEdits st4)(key := None)\<rparr>,
                                            [(ToRoom documentId,
                                              DocumentUpdated serverShadow (uid socket) (uname socket)),
                                             (ToRoom documentId,
                                              VersionCreated (currentVersion document2)
                                                (uid socket) (uname socket) (clock env 3)),
                                             (ToSender, OfflineEditsSynced True appliedCount)])))
                         else
                           (st1\<lparr>offlineEdits := (offlineEdits st1)(key := None)\<rparr>,
                            [(ToSender, OfflineEditsSynced True appliedCount)])))))"

section \<open>The revert route\<close>

text \<open>
  \<open>router.post('/:id/revert/:versionIndex', auth, ...)\<close>. The argument
  \<open>parsed\<close> is the value of \<open>parseInt(req.params.versionIndex)\<close>, \<open>None\<close>
  for \<open>NaN\<close>. The answer is the JSON of the document or a status with a
  message. The route has no access to \<open>documentShadows\<close> and emits nothing
  on the sockets.
\<close>

datatype response = Json document | Status nat string

definition hasAccess :: "document \<Rightarrow> userId \<Rightarrow> bool" where
  "hasAccess document u =
     (let isOwner = (owner document = u);
          isCollaborator = list_ex (\<lambda>collab. collab = u) (collaborators document)
      in isOwner \<or> isCollaborator)"

definition revert_route ::
  "'p env \<Rightarrow> 'p server \<Rightarrow> userId \<Rightarrow> docId \<Rightarrow> int option \<Rightarrow> 'p server \<times> response" where
  "revert_route env st reqUser id' parsed =
     (case db st id' of
        None \<Rightarrow> (st, Status 404 ''Document not found'')
      | Some document \<Rightarrow>
          if \<not> hasAccess document reqUser then (st, Status 403 ''Access denied'')
          else
            (case parsed of
               None \<Rightarrow> (st, Status 400 ''Invalid version index'')
             | Some versionIndex \<Rightarrow>
                 if versionIndex < 0 \<or> versionIndex \<ge> int (length (versions document))
                 then (st, Status 400 ''Invalid version index'')
                 else
                   (case revertToVersion (save env 0 st id') (clock env 0) (clock env 1)
                           document versionIndex reqUser of
                      (document', Inl e) \<Rightarrow> (st, Status 500 ''Server error'')
                    | (document', Inr (Inl e)) \<Rightarrow> (st, Status 500 ''Server error'')
                    | (document', Inr (Inr st')) \<Rightarrow> (st', Json document'))))"

section \<open>The replay, as the specification words it\<close>




section \<open>Delivery and example inputs\<close>

text \<open>
  The events a socket \<open>x\<close> receives from a handler run by the socket
  \<open>s\<close>, given who is in which room.
\<close>

definition delivered ::
  "(docId \<Rightarrow> sockId set) \<Rightarrow> sockId \<Rightarrow> (target \<times> 'p event) list \<Rightarrow> sockId \<Rightarrow> 'p event list" where
  "delivered rooms s outs x = map snd (filter (\<lambda>(t, ev). x \<in> recipients rooms s t) outs)"

text \<open>
  A small instance of the patch library for the concrete examples: a bundle
  \<open>(base, new)\<close> of one hunk that turns \<open>base\<close> into \<open>new\<close>; on any other
  text the hunk is reported as failed and the text is returned as it is.
\<close>

definition replace_patch :: "string \<times> string \<Rightarrow> string \<Rightarrow> string \<times> bool list" where
  "replace_patch p text' = (if text' = fst p then (snd p, [True]) else (text', [False]))"

definition example_env :: "int \<Rightarrow> bool \<Rightarrow> bool \<Rightarrow> (string \<times> string) env" where
  "example_env now ok0 ok1 =
     \<lparr>patch_apply = replace_patch, clock = (\<lambda>k. now),
      save_ok = (\<lambda>k. if k = 0 then ok0 else ok1)\<rparr>"

definition example_doc :: "string \<Rightarrow> version list \<Rightarrow> document" where
  "example_doc c vs =
     \<lparr>title = ''notes'', content = c, owner = ''alice'', collaborators = [''bob''],
      versions = vs, currentVersion = max 0 (int (length vs) - 1), lastModified = 0\<rparr>"

definition example_version :: "string \<Rightarrow> int \<Rightarrow> version" where
  "example_version c t =
     \<lparr>v_content = c, v_timestamp = t, v_author = ''alice'',
      v_changeDescription = ''Initial version''\<rparr>"

definition example_server ::
  "document \<Rightarrow> string option \<Rightarrow> (string \<times> string) offline_edit list option
     \<Rightarrow> (string \<times> string) server" where
  "example_server doc shadow edits =
     \<lparr>db = [''d1'' \<mapsto> doc],
      documentShadows = (\<lambda>d. if d = ''d1'' then shadow else None),
      offlineEdits = (\<lambda>k. if k = ''alice-d1'' then edits else None)\<rparr>"

definition example_edit :: "string \<Rightarrow> string \<Rightarrow> int \<Rightarrow> (string \<times> string) offline_edit" where
  "example_edit a b t =
     \<lparr>e_patches = (a, b), e_timestamp = t, e_userId = ''alice'', e_username = ''Alice''\<rparr>"

definition alice :: session where
  "alice = \<lparr>sid = ''s1'', uid = ''alice'', uname = ''Alice''\<rparr>"

definition mallory :: session where
  "mallory = \<lparr>sid = ''s9'', uid = ''mallory'', uname = ''Mallory''\<rparr>"

definition bob :: session where
  "bob = \<lparr>sid = ''s2'', uid = ''bob'', uname = ''Bob''\<rparr>"

text \<open>
  The document of the revert scenario: three versions ''a'', ''ab'', ''abc'',
  the content ''abcX'', and the server holding ''abcX'' as its cached shadow.
\<close>

definition revert_doc :: document where
  "revert_doc = example_doc ''abcX''
     [example_version ''a'' 0, example_version ''ab'' 1, example_version ''abc'' 2]"

definition revert_server :: "(string \<times> string) server" where
  "revert_server = example_server revert_doc (Some ''abcX'') None"

text \<open>
  A server with no document ''ghost'', where mallory has one bundle buffered
  for ''ghost'' and alice one for ''d1''.
\<close>

definition buffer_server :: "(string \<times> string) server" where
  "buffer_server =
     \<lparr>db = [''d1'' \<mapsto> example_doc ''abc'' []],
      documentShadows = Map.empty,
      offlineEdits = [''mallory-ghost'' \<mapsto> [example_edit ''x'' ''xy'' 10],
                      ''alice-d1'' \<mapsto> [example_edit ''abc'' ''abcd'' 20]]\<rparr>"


section \<open>Lemmas on the helpers\<close>

lemma list_all_id_iff: "list_all (\<lambda>result. result) rs \<longleftrightarrow> False \<notin> set rs"
  by (induction rs) auto

lemma applyPatch_eq:
  "patch_apply env p s = (t, rs) \<Longrightarrow> applyPatch env s p = (t, False \<notin> set rs)"
  by (simp add: applyPatch_def list_all_id_iff)

lemma getDocumentShadow_found:
  "db st d = Some doc \<Longrightarrow> shadow_view st d = Some s \<Longrightarrow>
   getDocumentShadow st d = Inr (s, st\<lparr>documentShadows := (documentShadows st)(d \<mapsto> s)\<rparr>)"
  by (auto simp: getDocumentShadow_def shadow_view_def map_upd_triv split: option.splits)

lemma shadow_view_hydrated:
  "shadow_view st d = Some s \<Longrightarrow>
   shadow_view (st\<lparr>documentShadows := (documentShadows st)(d \<mapsto> s)\<rparr>) = shadow_view st"
  by (rule ext) (auto simp: shadow_view_def split: option.splits)

text \<open>The handler on a bundle with a failed hunk.\<close>

lemma document_change_failed:
  assumes "db st d = Some doc" and "shadow_view st d = Some s"
    and "False \<in> set (snd (patch_apply env p s))"
  shows "document_change env st sock d p csv =
           (st\<lparr>documentShadows := (documentShadows st)(d \<mapsto> s)\<rparr>,
            [(ToSender, SyncRequired (content doc) (currentVersion doc))])"
  using assms
  by (simp add: document_change_def getDocumentShadow_found applyPatch_def
        case_prod_beta list_all_id_iff)

text \<open>
  The handler on a bundle all of whose hunks succeed, by the outcome of the
  two saves and of the snapshot test.
\<close>

lemma document_change_applied:
  assumes "db st d = Some doc" and "shadow_view st d = Some s"
    and "patch_apply env p s = (t, rs)" and "False \<notin> set rs"
  shows "document_change env st sock d p csv =
    (if save_ok env 0 then
       (if versions doc = [] \<or> 60000 < clock env 1 - v_timestamp (last (versions doc)) then
          (if save_ok env 1 then
             (st\<lparr>db := (db st)(d \<mapsto>
                   doc\<lparr>versions := versions doc @
                          [\<lparr>v_content = t, v_timestamp = clock env 2, v_author = uid sock,
                            v_changeDescription = ''Auto-saved version''\<rparr>],
                        currentVersion := int (length (versions doc)),
                        content := t, lastModified := clock env 3\<rparr>),
                 documentShadows := (documentShadows st)(d \<mapsto> t)\<rparr>,
              [(ToOthersInRoom d, DocumentChange p (uid sock) (uname sock)),
               (ToRoom d, VersionCreated (int (length (versions doc))) (uid sock) (uname sock)
                            (clock env 4))])
           else
             (st\<lparr>db := (db st)(d \<mapsto> doc\<lparr>content := t, lastModified := clock env 0\<rparr>),
                 documentShadows := (documentShadows st)(d \<mapsto> t)\<rparr>,
              [(ToOthersInRoom d, DocumentChange p (uid sock) (uname sock)),
               (ToSender, ErrorEv PersistenceFailure)]))
        else
          (st\<lparr>db := (db st)(d \<mapsto> doc\<lparr>content := t, lastModified := clock env 0\<rparr>),
              documentShadows := (documentShadows st)(d \<mapsto> t)\<rparr>,
           [(ToOthersInRoom d, DocumentChange p (uid sock) (uname sock))]))
     else
       (st\<lparr>documentShadows := (documentShadows st)(d \<mapsto> t)\<rparr>,
        [(ToSender, ErrorEv PersistenceFailure)]))"
  using assms
  by (simp add: document_change_def getDocumentShadow_found applyPatch_eq
        updateDocumentShadow_def save_def addVersion_def Let_def)

lemma example_db [simp]: "db (example_server doc sh es) ''d1'' = Some doc"
  by (simp add: example_server_def)

lemma example_shadow_cached [simp]:
  "shadow_view (example_server doc (Some s) es) ''d1'' = Some s"
  by (simp add: example_server_def shadow_view_def)

lemma example_shadow_fresh [simp]:
  "shadow_view (example_server doc None es) ''d1'' = Some (content doc)"
  by (simp add: example_server_def shadow_view_def)

lemma example_clock [simp]: "clock (example_env now ok0 ok1) k = now"
  by (simp add: example_env_def)

lemma example_save_ok [simp]:
  "save_ok (example_env now ok0 ok1) 0 = ok0"
  "save_ok (example_env now ok0 ok1) (Suc 0) = ok1"
  by (simp_all add: example_env_def)

lemma example_patch [simp]:
  "patch_apply (example_env now ok0 ok1) p s = replace_patch p s"
  by (simp add: example_env_def)

section \<open>The decimal rendering is the canonical numeral\<close>










section \<open>The document-change handler\<close>

text \<open>
  C1. When the document exists and some hunk of the bundle fails against the
  server shadow, the handler emits exactly one event, \<open>sync-required\<close> with
  the document's current content, addressed to the sender: any other socket
  receives nothing. The stored documents (content and versions with them)
  and the offline buffers are the same afterwards, and so is the shadow of
  every document. The only thing that can differ in \<open>documentShadows\<close> is
  that the shadow just loaded for this document is now cached.
\<close>

theorem document_change_patch_failure:
  assumes "db st d = Some doc" and "shadow_view st d = Some s"
    and "False \<in> set (snd (patch_apply env p s))"
  shows "snd (document_change env st sock d p csv)
           = [(ToSender, SyncRequired (content doc) (currentVersion doc))]
       \<and> delivered rooms (sid sock) (snd (document_change env st sock d p csv)) x
           = (if x = sid sock then [SyncRequired (content doc) (currentVersion doc)] else [])
       \<and> db (fst (document_change env st sock d p csv)) = db st
       \<and> shadow_view (fst (document_change env st sock d p csv)) = shadow_view st
       \<and> documentShadows (fst (document_change env st sock d p csv))
           = (documentShadows st)(d \<mapsto> s)
       \<and> offlineEdits (fst (document_change env st sock d p csv)) = offlineEdits st"
  using assms
  by (simp add: document_change_failed shadow_view_hydrated delivered_def)

theorem document_change_patch_failure_witness:
  "db (example_server (example_doc ''one two three'' []) (Some ''one two three'') None) ''d1''
     = Some (example_doc ''one two three'' [])
   \<and> False \<in> set (snd (patch_apply (example_env 5 True True)
                 (''one two'', ''one two four'') ''one two three''))
   \<and> snd (document_change (example_env 5 True True)
          (example_server (example_doc ''one two three'' []) (Some ''one two three'') None)
          alice ''d1'' (''one two'', ''one two four'') 0)
     = [(ToSender, SyncRequired ''one two three'' 0)]
   \<and> documentShadows (fst (document_change (example_env 5 True True)
          (example_server (example_doc ''one two three'' []) (Some ''one two three'') None)
          alice ''d1'' (''one two'', ''one two four'') 0)) ''d1''
     = Some ''one two three''"
proof -
  let ?st = "example_server (example_doc ''one two three'' []) (Some ''one two three'') None"
  have a: "db ?st ''d1'' = Some (example_doc ''one two three'' [])"
    by simp
  have b: "shadow_view ?st ''d1'' = Some ''one two three''"
    by simp
  have c: "False \<in> set (snd (patch_apply (example_env 5 True True)
                 (''one two'', ''one two four'') ''one two three''))"
    by (simp add: replace_patch_def)
  show ?thesis
    using a c document_change_patch_failure [OF a b c, of alice 0]
    by (simp add: example_doc_def)
qed

text \<open>
  C2. The claim asks that a sender who is neither the owner nor a
  collaborator gets an error and changes nothing. The handler has no such
  test: the document below belongs to alice, bob is its only collaborator,
  and the edit sent by mallory is applied, stored, cached as the shadow and
  relayed to the room, with no error event.
\<close>

theorem document_change_unauthorized_applied:
  "\<not> hasAccess (example_doc ''abc'' [example_version ''abc'' 0]) (uid mallory)
   \<and> map_option content
       (db (fst (document_change (example_env 1000 True True)
                  (example_server (example_doc ''abc'' [example_version ''abc'' 0]) None None)
                  mallory ''d1'' (''abc'', ''pwned'') 0)) ''d1'')
     = Some ''pwned''
   \<and> documentShadows
       (fst (document_change (example_env 1000 True True)
              (example_server (example_doc ''abc'' [example_version ''abc'' 0]) None None)
              mallory ''d1'' (''abc'', ''pwned'') 0)) ''d1''
     = Some ''pwned''
   \<and> snd (document_change (example_env 1000 True True)
            (example_server (example_doc ''abc'' [example_version ''abc'' 0]) None None)
            mallory ''d1'' (''abc'', ''pwned'') 0)
     = [(ToOthersInRoom ''d1'', DocumentChange (''abc'', ''pwned'') ''mallory'' ''Mallory'')]"
proof -
  let ?doc = "example_doc ''abc'' [example_version ''abc'' 0]"
  let ?st = "example_server ?doc None None"
  have a: "db ?st ''d1'' = Some ?doc"
    by simp
  have b: "shadow_view ?st ''d1'' = Some ''abc''"
    by (simp add: example_doc_def)
  have c: "patch_apply (example_env 1000 True True) (''abc'', ''pwned'') ''abc''
             = (''pwned'', [True])"
    by (simp add: replace_patch_def)
  have d: "False \<notin> set [True]"
    by simp
  have e: "\<not> hasAccess ?doc (uid mallory)"
    by (simp add: hasAccess_def example_doc_def mallory_def)
  show ?thesis
    unfolding document_change_applied [OF a b c d]
    using e
    by (simp add: example_env_def example_doc_def example_version_def mallory_def)
qed

text \<open>
  C3, as the claim states it, fails at the boundary: with the last version
  taken at time 0 and the snapshot test made at time 60000, exactly sixty
  seconds have passed, the edit is applied and saved, and no version is
  appended and no \<open>version-created\<close> is sent.
\<close>

theorem snapshot_at_sixty_seconds_counterexample:
  "clock (example_env 60000 True True) 1
     - v_timestamp (last (versions (example_doc ''abc'' [example_version ''abc'' 0]))) \<ge> 60000
   \<and> map_option versions
       (db (fst (document_change (example_env 60000 True True)
                  (example_server (example_doc ''abc'' [example_version ''abc'' 0]) None None)
                  alice ''d1'' (''abc'', ''abcd'') 0)) ''d1'')
     = Some [example_version ''abc'' 0]
   \<and> map_option content
       (db (fst (document_change (example_env 60000 True True)
                  (example_server (example_doc ''abc'' [example_version ''abc'' 0]) None None)
                  alice ''d1'' (''abc'', ''abcd'') 0)) ''d1'')
     = Some ''abcd''
   \<and> snd (document_change (example_env 60000 True True)
            (example_server (example_doc ''abc'' [example_version ''abc'' 0]) None None)
            alice ''d1'' (''abc'', ''abcd'') 0)
     = [(ToOthersInRoom ''d1'', DocumentChange (''abc'', ''abcd'') ''alice'' ''Alice'')]"
proof -
  let ?doc = "example_doc ''abc'' [example_version ''abc'' 0]"
  let ?st = "example_server ?doc None None"
  have a: "db ?st ''d1'' = Some ?doc"
    by simp
  have b: "shadow_view ?st ''d1'' = Some ''abc''"
    by (simp add: example_doc_def)
  have c: "patch_apply (example_env 60000 True True) (''abc'', ''abcd'') ''abc''
             = (''abcd'', [True])"
    by (simp add: replace_patch_def)
  have d: "False \<notin> set [True]"
    by simp
  show ?thesis
    unfolding document_change_applied [OF a b c d]
    by (simp add: example_env_def example_doc_def example_version_def alice_def)
qed

text \<open>
  C3, amended. In a document-change whose bundle applies and whose saves
  succeed, a version is appended if and only if \<open>versions\<close> is empty or the
  clock at the test minus the timestamp of the last version is strictly more
  than 60000 ms. The appended version has the new shadow as content, the
  sender as author and the description "Auto-saved version", and
  \<open>version-created\<close> reaches every socket of the room, the sender's too
  when it is in the room, while the relayed patch reaches the room's other
  sockets only. Otherwise the history is as before and no
  \<open>version-created\<close> is sent.
\<close>

theorem document_change_snapshot_policy:
  assumes "db st d = Some doc" and "shadow_view st d = Some s"
    and "patch_apply env p s = (t, rs)" and "False \<notin> set rs"
    and "save_ok env 0" and "save_ok env 1"
  shows "map_option versions (db (fst (document_change env st sock d p csv)) d)
           = Some (if versions doc = []
                      \<or> 60000 < clock env 1 - v_timestamp (last (versions doc))
                   then versions doc @
                          [\<lparr>v_content = t, v_timestamp = clock env 2, v_author = uid sock,
                            v_changeDescription = ''Auto-saved version''\<rparr>]
                   else versions doc)
       \<and> snd (document_change env st sock d p csv)
           = (ToOthersInRoom d, DocumentChange p (uid sock) (uname sock)) #
             (if versions doc = []
                 \<or> 60000 < clock env 1 - v_timestamp (last (versions doc))
              then [(ToRoom d, VersionCreated (int (length (versions doc)))
                                 (uid sock) (uname sock) (clock env 4))]
              else [])
       \<and> delivered rooms (sid sock) (snd (document_change env st sock d p csv)) x
           = (if x \<in> rooms d \<and> x \<noteq> sid sock
              then [DocumentChange p (uid sock) (uname sock)] else []) @
             (if (versions doc = []
                  \<or> 60000 < clock env 1 - v_timestamp (last (versions doc))) \<and> x \<in> rooms d
              then [VersionCreated (int (length (versions doc)))
                      (uid sock) (uname sock) (clock env 4)]
              else [])
       \<and> documentShadows (fst (document_change env st sock d p csv)) d = Some t
       \<and> map_option content (db (fst (document_change env st sock d p csv)) d) = Some t"
  unfolding document_change_applied [OF assms(1-4)]
  using assms(5,6)
  by (auto simp: delivered_def)

theorem document_change_snapshot_policy_witness:
  "db (example_server (example_doc ''abc'' [example_version ''abc'' 0]) None None) ''d1''
     = Some (example_doc ''abc'' [example_version ''abc'' 0])
   \<and> save_ok (example_env 60001 True True) 0 \<and> save_ok (example_env 60001 True True) 1
   \<and> map_option versions
       (db (fst (document_change (example_env 60001 True True)
                  (example_server (example_doc ''abc'' [example_version ''abc'' 0]) None None)
                  alice ''d1'' (''abc'', ''abcd'') 0)) ''d1'')
     = Some [example_version ''abc'' 0,
             \<lparr>v_content = ''abcd'', v_timestamp = 60001, v_author = ''alice'',
              v_changeDescription = ''Auto-saved version''\<rparr>]
   \<and> snd (document_change (example_env 60001 True True)
            (example_server (example_doc ''abc'' [example_version ''abc'' 0]) None None)
            alice ''d1'' (''abc'', ''abcd'') 0)
     = [(ToOthersInRoom ''d1'', DocumentChange (''abc'', ''abcd'') ''alice'' ''Alice''),
        (ToRoom ''d1'', VersionCreated 1 ''alice'' ''Alice'' 60001)]"
proof -
  let ?doc = "example_doc ''abc'' [example_version ''abc'' 0]"
  let ?st = "example_server ?doc None None"
  let ?env = "example_env 60001 True True"
  have a: "db ?st ''d1'' = Some ?doc"
    by simp
  have b: "shadow_view ?st ''d1'' = Some ''abc''"
    by (simp add: example_doc_def)
  have c: "patch_apply ?env (''abc'', ''abcd'') ''abc'' = (''abcd'', [True])"
    by (simp add: replace_patch_def)
  have d: "False \<notin> set [True]"
    by simp
  have e: "save_ok ?env 0" and f: "save_ok ?env 1"
    by simp_all
  have g: "versions ?doc = [example_version ''abc'' 0]"
    by (simp add: example_doc_def)
  have i: "v_timestamp (example_version ''abc'' 0) = 0"
    by (simp add: example_version_def)
  show ?thesis
    using a e f document_change_snapshot_policy [OF a b c d e f, of alice 0]
    by (simp add: g i alice_def)
qed

text \<open>
  C4, as the claim states it, fails on the rollback: the shadow is ''abc''
  before the edit, the bundle applies, the save is rejected, and the shadow
  is left at the patched text ''abcd''.
\<close>

theorem persistence_failure_rollback_counterexample:
  "\<not> save_ok (example_env 1000 False True) 0
   \<and> shadow_view (example_server (example_doc ''abc'' [example_version ''abc'' 0])
                   (Some ''abc'') None) ''d1''
     = Some ''abc''
   \<and> documentShadows
       (fst (document_change (example_env 1000 False True)
              (example_server (example_doc ''abc'' [example_version ''abc'' 0])
                 (Some ''abc'') None)
              alice ''d1'' (''abc'', ''abcd'') 0)) ''d1''
     = Some ''abcd''"
proof -
  let ?doc = "example_doc ''abc'' [example_version ''abc'' 0]"
  let ?st = "example_server ?doc (Some ''abc'') None"
  have a: "db ?st ''d1'' = Some ?doc"
    by simp
  have b: "shadow_view ?st ''d1'' = Some ''abc''"
    by simp
  have c: "patch_apply (example_env 1000 False True) (''abc'', ''abcd'') ''abc''
             = (''abcd'', [True])"
    by (simp add: replace_patch_def)
  have d: "False \<notin> set [True]"
    by simp
  show ?thesis
    unfolding document_change_applied [OF a b c d]
    by (simp add: example_env_def)
qed

text \<open>
  C4, amended. When the bundle applies and the save of the document head is
  rejected, the handler emits exactly one event, an error addressed to the
  sender, so the patch reaches no peer; the stored documents and the offline
  buffers are unchanged; and the shadow of the document stays at the patched
  text.
\<close>

theorem document_change_persistence_failure:
  assumes "db st d = Some doc" and "shadow_view st d = Some s"
    and "patch_apply env p s = (t, rs)" and "False \<notin> set rs"
    and "\<not> save_ok env 0"
  shows "snd (document_change env st sock d p csv) = [(ToSender, ErrorEv PersistenceFailure)]
       \<and> delivered rooms (sid sock) (snd (document_change env st sock d p csv)) x
           = (if x = sid sock then [ErrorEv PersistenceFailure] else [])
       \<and> db (fst (document_change env st sock d p csv)) = db st
       \<and> documentShadows (fst (document_change env st sock d p csv))
           = (documentShadows st)(d \<mapsto> t)
       \<and> offlineEdits (fst (document_change env st sock d p csv)) = offlineEdits st"
  unfolding document_change_applied [OF assms(1-4)]
  using assms(5)
  by (simp add: delivered_def)

theorem document_change_persistence_failure_witness:
  "db (example_server (example_doc ''abc'' []) (Some ''abc'') None) ''d1''
     = Some (example_doc ''abc'' [])
   \<and> \<not> save_ok (example_env 1000 False True) 0
   \<and> snd (document_change (example_env 1000 False True)
            (example_server (example_doc ''abc'' []) (Some ''abc'') None)
            alice ''d1'' (''abc'', ''abcd'') 0)
     = [(ToSender, ErrorEv PersistenceFailure)]
   \<and> db (fst (document_change (example_env 1000 False True)
            (example_server (example_doc ''abc'' []) (Some ''abc'') None)
            alice ''d1'' (''abc'', ''abcd'') 0)) ''d1''
     = Some (example_doc ''abc'' [])"
proof -
  let ?doc = "example_doc ''abc'' []"
  let ?st = "example_server ?doc (Some ''abc'') None"
  let ?env = "example_env 1000 False True"
  have a: "db ?st ''d1'' = Some ?doc"
    by simp
  have b: "shadow_view ?st ''d1'' = Some ''abc''"
    by simp
  have c: "patch_apply ?env (''abc'', ''abcd'') ''abc'' = (''abcd'', [True])"
    by (simp add: replace_patch_def)
  have d: "False \<notin> set [True]"
    by simp
  have e: "\<not> save_ok ?env 0"
    by (simp add: example_env_def)
  show ?thesis
    using a e document_change_persistence_failure [OF a b c d e, of alice 0]
    by simp
qed

section \<open>The offline buffer\<close>

text \<open>
  User ids are ObjectIds, rendered as hexadecimal digits, so they hold no
  dash; on such ids the key determines the user and the document.
\<close>

lemma offline_key_inj:
  "CHR ''-'' \<notin> set u \<Longrightarrow> CHR ''-'' \<notin> set u' \<Longrightarrow>
   offline_key u d = offline_key u' d' \<Longrightarrow> u = u' \<and> d = d'"
  unfolding offline_key_def
  by (induction u arbitrary: u') (auto simp: Cons_eq_append_conv)









section \<open>Version history\<close>

text \<open>
  C6. After every \<open>addVersion\<close>, \<open>currentVersion\<close> is the index of the last
  entry of \<open>versions\<close>, the history is the previous history with exactly one
  entry appended (its old entries are still there, unchanged and in place),
  and \<open>content\<close> is the content of the appended entry. It is this mutated
  object that is handed to \<open>save\<close>.
\<close>

theorem addVersion_appends:
  fixes sv :: "document \<Rightarrow> 'r"
  shows "currentVersion (fst (addVersion sv t1 t2 this c a desc))
           = int (length (versions (fst (addVersion sv t1 t2 this c a desc)))) - 1
       \<and> versions (fst (addVersion sv t1 t2 this c a desc))
           = versions this @ [last (versions (fst (addVersion sv t1 t2 this c a desc)))]
       \<and> length (versions (fst (addVersion sv t1 t2 this c a desc)))
           = Suc (length (versions this))
       \<and> take (length (versions this)) (versions (fst (addVersion sv t1 t2 this c a desc)))
           = versions this
       \<and> v_content (last (versions (fst (addVersion sv t1 t2 this c a desc)))) = c
       \<and> v_author (last (versions (fst (addVersion sv t1 t2 this c a desc)))) = a
       \<and> content (fst (addVersion sv t1 t2 this c a desc))
           = v_content (last (versions (fst (addVersion sv t1 t2 this c a desc))))
       \<and> snd (addVersion sv t1 t2 this c a desc) = sv (fst (addVersion sv t1 t2 this c a desc))"
  by (simp add: addVersion_def Let_def)

text \<open>The method and the route, case by case.\<close>

lemma revertToVersion_eq:
  "revertToVersion sv t1 t2 this i u =
     (if 0 \<le> i \<and> i < int (length (versions this)) then
        (this\<lparr>versions := versions this @
                 [\<lparr>v_content = v_content (versions this ! nat i), v_timestamp = t1,
                   v_author = u,
                   v_changeDescription = ''Reverted to version '' @ number_to_string (i + 1)\<rparr>],
              currentVersion := int (length (versions this)),
              content := v_content (versions this ! nat i),
              lastModified := t2\<rparr>,
         Inr (sv (this\<lparr>versions := versions this @
                 [\<lparr>v_content = v_content (versions this ! nat i), v_timestamp = t1,
                   v_author = u,
                   v_changeDescription = ''Reverted to version '' @ number_to_string (i + 1)\<rparr>],
              currentVersion := int (length (versions this)),
              content := v_content (versions this ! nat i),
              lastModified := t2\<rparr>)))
      else (this, Inl InvalidVersionIndex))"
  by (simp add: revertToVersion_def addVersion_def Let_def)

lemma revert_route_shadows:
  "documentShadows (fst (revert_route env st u d parsed)) = documentShadows st"
  by (simp add: revert_route_def revertToVersion_eq save_def split: option.splits)

lemma revert_route_eq:
  assumes "db st d = Some doc" and "hasAccess doc u" and "save_ok env 0"
  shows "revert_route env st u d (Some i) =
     (if 0 \<le> i \<and> i < int (length (versions doc)) then
        (st\<lparr>db := (db st)(d \<mapsto>
               fst (revertToVersion (save env 0 st d) (clock env 0) (clock env 1) doc i u))\<rparr>,
         Json (fst (revertToVersion (save env 0 st d) (clock env 0) (clock env 1) doc i u)))
      else (st, Status 400 ''Invalid version index''))"
  using assms
  by (simp add: revert_route_def revertToVersion_eq save_def)

text \<open>
  C7. The claim asks that a revert refreshes the in-memory shadow to the
  reverted content. The revert does the rest of what the claim says and
  leaves the shadow alone. In the scenario below the document has the
  versions ''a'', ''ab'', ''abc'', the content ''abcX'' and the cached shadow
  ''abcX''. Alice reverts to index 1: a fourth version ''ab'' with the
  description "Reverted to version 2" is appended and the stored content is
  ''ab'', while the shadow is still ''abcX''. Bob's next edit, made from
  ''abcX'', is applied to that stale shadow and stored: the content becomes
  ''abcXY'' and the revert is gone.
\<close>

theorem revert_leaves_stale_shadow:
  "map_option content
     (db (fst (revert_route (example_env 5 True True) revert_server
                 ''alice'' ''d1'' (Some 1))) ''d1'')
     = Some ''ab''
   \<and> map_option (\<lambda>doc. map v_content (versions doc))
       (db (fst (revert_route (example_env 5 True True) revert_server
                   ''alice'' ''d1'' (Some 1))) ''d1'')
     = Some [''a'', ''ab'', ''abc'', ''ab'']
   \<and> map_option (\<lambda>doc. v_changeDescription (last (versions doc)))
       (db (fst (revert_route (example_env 5 True True) revert_server
                   ''alice'' ''d1'' (Some 1))) ''d1'')
     = Some ''Reverted to version 2''
   \<and> documentShadows
       (fst (revert_route (example_env 5 True True) revert_server
               ''alice'' ''d1'' (Some 1))) ''d1''
     = Some ''abcX''
   \<and> map_option content
       (db (fst (document_change (example_env 9 True True)
                   (fst (revert_route (example_env 5 True True) revert_server
                           ''alice'' ''d1'' (Some 1)))
                   bob ''d1'' (''abcX'', ''abcXY'') 0)) ''d1'')
     = Some ''abcXY''"
proof -
  let ?env = "example_env 5 True True"
  let ?st1 = "fst (revert_route ?env revert_server ''alice'' ''d1'' (Some 1))"
  let ?doc1 = "fst (revertToVersion (save ?env 0 revert_server ''d1'') (clock ?env 0)
                      (clock ?env 1) revert_doc 1 ''alice'')"
  have a: "db revert_server ''d1'' = Some revert_doc"
    by (simp add: revert_server_def)
  have b: "hasAccess revert_doc ''alice''"
    by (simp add: hasAccess_def revert_doc_def example_doc_def)
  have c: "save_ok ?env 0"
    by simp
  have v: "versions revert_doc
             = [example_version ''a'' 0, example_version ''ab'' 1, example_version ''abc'' 2]"
    by (simp add: revert_doc_def example_doc_def)
  have n: "number_to_string 2 = ''2''"
    by (simp add: number_to_string_def decimal.simps digit_def)
  have st1: "?st1 = revert_server\<lparr>db := (db revert_server)(''d1'' \<mapsto> ?doc1)\<rparr>"
    using revert_route_eq [OF a b c, of 1] by (simp add: v)
  have d1: "db ?st1 ''d1'' = Some ?doc1"
    unfolding st1 by simp
  have c1: "content ?doc1 = ''ab''"
    by (simp add: revertToVersion_eq v example_version_def)
  have vs1: "map v_content (versions ?doc1) = [''a'', ''ab'', ''abc'', ''ab'']"
    by (simp add: revertToVersion_eq v example_version_def)
  have ds1: "v_changeDescription (last (versions ?doc1)) = ''Reverted to version 2''"
    by (simp add: revertToVersion_eq v n)
  have sh1: "documentShadows ?st1 ''d1'' = Some ''abcX''"
    unfolding revert_route_shadows by (simp add: revert_server_def example_server_def)
  have sv1: "shadow_view ?st1 ''d1'' = Some ''abcX''"
    using sh1 by (simp add: shadow_view_def)
  have p: "patch_apply (example_env 9 True True) (''abcX'', ''abcXY'') ''abcX''
             = (''abcXY'', [True])"
    by (simp add: replace_patch_def)
  have q: "False \<notin> set [True]"
    by simp
  have c2: "map_option content
              (db (fst (document_change (example_env 9 True True) ?st1 bob ''d1''
                          (''abcX'', ''abcXY'') 0)) ''d1'')
            = Some ''abcXY''"
    unfolding document_change_applied [OF d1 sv1 p q]
    by simp
  show ?thesis
    using d1 c1 vs1 ds1 sh1 c2 by simp
qed

text \<open>
  C8. For every document and every valid index \<open>i\<close>, reverting to version
  \<open>i\<close> yields a document whose content is that of version \<open>i\<close>; reverting
  the result to the same \<open>i\<close> again succeeds, leaves the content the same and
  appends one more version entry.
\<close>

theorem revert_twice:
  assumes "0 \<le> i" and "i < int (length (versions this))"
  shows "content (fst (revertToVersion sv t1 t2 this i u)) = v_content (versions this ! nat i)
     \<and> content (fst (revertToVersion sv' t3 t4 (fst (revertToVersion sv t1 t2 this i u)) i u))
         = content (fst (revertToVersion sv t1 t2 this i u))
     \<and> versions (fst (revertToVersion sv' t3 t4 (fst (revertToVersion sv t1 t2 this i u)) i u))
         = versions (fst (revertToVersion sv t1 t2 this i u)) @
             [\<lparr>v_content = v_content (versions this ! nat i), v_timestamp = t3, v_author = u,
               v_changeDescription = ''Reverted to version '' @ number_to_string (i + 1)\<rparr>]
     \<and> snd (revertToVersion sv' t3 t4 (fst (revertToVersion sv t1 t2 this i u)) i u)
         = Inr (sv' (fst (revertToVersion sv' t3 t4 (fst (revertToVersion sv t1 t2 this i u)) i u)))"
  using assms
  by (simp add: revertToVersion_eq nth_append)

theorem revert_twice_witness:
  "(0::int) \<le> 0
   \<and> 0 < int (length (versions (example_doc ''xyz'' [example_version ''x'' 0,
                                                     example_version ''xy'' 1])))
   \<and> content (fst (revertToVersion (\<lambda>doc. ()) 7 8
                     (example_doc ''xyz'' [example_version ''x'' 0, example_version ''xy'' 1])
                     0 ''alice''))
     = ''x''
   \<and> content (fst (revertToVersion (\<lambda>doc. ()) 9 10
                (fst (revertToVersion (\<lambda>doc. ()) 7 8
                        (example_doc ''xyz'' [example_version ''x'' 0, example_version ''xy'' 1])
                        0 ''alice''))
                0 ''alice''))
     = ''x''
   \<and> length (versions (fst (revertToVersion (\<lambda>doc. ()) 9 10
                (fst (revertToVersion (\<lambda>doc. ()) 7 8
                        (example_doc ''xyz'' [example_version ''x'' 0, example_version ''xy'' 1])
                        0 ''alice''))
                0 ''alice'')))
     = 4"
proof -
  let ?doc = "example_doc ''xyz'' [example_version ''x'' 0, example_version ''xy'' 1]"
  have a: "(0::int) \<le> 0"
    by simp
  have b: "0 < int (length (versions ?doc))"
    by (simp add: example_doc_def)
  have v: "v_content (versions ?doc ! 0) = ''x''"
    by (simp add: example_doc_def example_version_def)
  have l: "length (versions (fst (revertToVersion (\<lambda>doc. ()) 7 8 ?doc 0 ''alice''))) = 3"
    by (simp add: revertToVersion_eq example_doc_def)
  show ?thesis
    using a b revert_twice [OF a b, of "\<lambda>doc. ()" 7 8 "''alice''" "\<lambda>doc. ()" 9 10]
    by (simp add: v l)
qed

section \<open>Buffering and the empty replay\<close>

text \<open>
  C9. \<open>save-offline-edit\<close> puts the bundle at the end of the buffer stored
  under the user's id, a dash and the document id: what was buffered there
  before is kept, in order, in front of it, an absent buffer counting as
  empty, and every other key keeps its buffer. User ids hold no dash, and
  then the buffer of any other user or document is one of those untouched
  keys. The handler emits \<open>offline-edit-saved {success: true}\<close> to the sender
  and to nobody else. All this holds for every state, whether or not the
  document exists or the sender has access to it. The stored documents and
  the shadows are unchanged, and they are not read: with any other documents
  and shadows in their place the handler emits the same and leaves the same
  buffers.
\<close>

theorem save_offline_edit_appends:
  "snd (save_offline_edit st sock d p ts) = [(ToSender, OfflineEditSaved True)]
   \<and> delivered rooms (sid sock) (snd (save_offline_edit st sock d p ts)) x
       = (if x = sid sock then [OfflineEditSaved True] else [])
   \<and> offlineEdits (fst (save_offline_edit st sock d p ts))
       = (offlineEdits st)(uid sock @ ''-'' @ d \<mapsto>
            (case offlineEdits st (uid sock @ ''-'' @ d) of
               None \<Rightarrow> [] | Some earlier \<Rightarrow> earlier) @
              [\<lparr>e_patches = p, e_timestamp = ts, e_userId = uid sock,
                e_username = uname sock\<rparr>])
   \<and> (CHR ''-'' \<notin> set (uid sock) \<and> CHR ''-'' \<notin> set u' \<and> (u', d') \<noteq> (uid sock, d)
        \<longrightarrow> offlineEdits (fst (save_offline_edit st sock d p ts)) (u' @ ''-'' @ d')
              = offlineEdits st (u' @ ''-'' @ d'))
   \<and> db (fst (save_offline_edit st sock d p ts)) = db st
   \<and> documentShadows (fst (save_offline_edit st sock d p ts)) = documentShadows st
   \<and> snd (save_offline_edit (st\<lparr>db := db', documentShadows := shadows'\<rparr>) sock d p ts)
       = snd (save_offline_edit st sock d p ts)
   \<and> offlineEdits (fst (save_offline_edit (st\<lparr>db := db', documentShadows := shadows'\<rparr>)
                          sock d p ts))
       = offlineEdits (fst (save_offline_edit st sock d p ts))"
proof -
  have other: "CHR ''-'' \<notin> set (uid sock) \<Longrightarrow> CHR ''-'' \<notin> set u' \<Longrightarrow> (u', d') \<noteq> (uid sock, d)
               \<Longrightarrow> u' @ ''-'' @ d' \<noteq> uid sock @ ''-'' @ d"
    using offline_key_inj [of u' "uid sock" d' d] by (auto simp: offline_key_def)
  show ?thesis
    using other
    by (auto simp: save_offline_edit_def Let_def buffered_def delivered_def offline_key_def)
qed

theorem save_offline_edit_appends_witness:
  "CHR ''-'' \<notin> set (uid mallory) \<and> CHR ''-'' \<notin> set ''alice''
   \<and> (''alice'', ''d1'') \<noteq> (uid mallory, ''ghost'')
   \<and> db buffer_server ''ghost'' = None
   \<and> snd (save_offline_edit buffer_server mallory ''ghost'' (''xy'', ''xyz'') 30)
     = [(ToSender, OfflineEditSaved True)]
   \<and> offlineEdits (fst (save_offline_edit buffer_server mallory ''ghost'' (''xy'', ''xyz'') 30))
       ''mallory-ghost''
     = Some [example_edit ''x'' ''xy'' 10,
             \<lparr>e_patches = (''xy'', ''xyz''), e_timestamp = 30, e_userId = ''mallory'',
              e_username = ''Mallory''\<rparr>]
   \<and> offlineEdits (fst (save_offline_edit buffer_server mallory ''ghost'' (''xy'', ''xyz'') 30))
       ''alice-d1''
     = Some [example_edit ''abc'' ''abcd'' 20]"
proof -
  have a: "CHR ''-'' \<notin> set (uid mallory) \<and> CHR ''-'' \<notin> set ''alice''
           \<and> (''alice'', ''d1'') \<noteq> (uid mallory, ''ghost'')"
    by (simp add: mallory_def)
  have b: "offlineEdits buffer_server (uid mallory @ ''-'' @ ''ghost'')
             = Some [example_edit ''x'' ''xy'' 10]"
    by (simp add: buffer_server_def mallory_def)
  have c: "offlineEdits buffer_server (''alice'' @ ''-'' @ ''d1'')
             = Some [example_edit ''abc'' ''abcd'' 20]"
    by (simp add: buffer_server_def)
  have k: "uid mallory @ ''-'' @ ''ghost'' = ''mallory-ghost''"
    by (simp add: mallory_def)
  have m: "uid mallory = ''mallory''" "uname mallory = ''Mallory''"
    by (simp_all add: mallory_def)
  note th = save_offline_edit_appends
              [of buffer_server mallory "''ghost''" "(''xy'', ''xyz'')" 30 _ _ "''alice''" "''d1''"]
  have e1: "offlineEdits (fst (save_offline_edit buffer_server mallory ''ghost''
                                 (''xy'', ''xyz'') 30)) ''mallory-ghost''
              = Some [example_edit ''x'' ''xy'' 10,
                      \<lparr>e_patches = (''xy'', ''xyz''), e_timestamp = 30, e_userId = ''mallory'',
                       e_username = ''Mallory''\<rparr>]"
    using th b by (simp add: k m)
  have e2: "offlineEdits (fst (save_offline_edit buffer_server mallory ''ghost''
                                 (''xy'', ''xyz'') 30)) ''alice-d1''
              = Some [example_edit ''abc'' ''abcd'' 20]"
    using th a c by simp
  have e3: "snd (save_offline_edit buffer_server mallory ''ghost'' (''xy'', ''xyz'') 30)
              = [(ToSender, OfflineEditSaved True)]"
    using th by simp
  show ?thesis
    using a e1 e2 e3 by (simp add: buffer_server_def)
qed

text \<open>
  C10. When the buffer of the user and the document is absent or empty,
  \<open>sync-offline-edits\<close> replies \<open>offline-edits-synced {success: true, count: 0}\<close>
  to the sender and the state is exactly as before: documents, shadows and
  offline buffers. Nothing is assumed of the document, so this is also what
  happens when \<open>documentId\<close> names no document: no error is emitted.
\<close>

theorem sync_offline_edits_nothing_buffered:
  assumes "offlineEdits st (offline_key (uid sock) d) = None
           \<or> offlineEdits st (offline_key (uid sock) d) = Some []"
  shows "sync_offline_edits env st sock d = (st, [(ToSender, OfflineEditsSynced True 0)])"
  using assms
  by (auto simp: sync_offline_edits_def buffered_def)

theorem sync_offline_edits_nothing_buffered_witness:
  "(offlineEdits \<lparr>db = Map.empty, documentShadows = Map.empty, offlineEdits = Map.empty\<rparr>
      (offline_key (uid alice) ''nowhere'') = None
    \<or> offlineEdits \<lparr>db = Map.empty, documentShadows = Map.empty, offlineEdits = Map.empty\<rparr>
      (offline_key (uid alice) ''nowhere'') = Some [])
   \<and> db \<lparr>db = Map.empty, documentShadows = Map.empty, offlineEdits = Map.empty\<rparr> ''nowhere'' = None
   \<and> sync_offline_edits (example_env 7 True True)
        \<lparr>db = Map.empty, documentShadows = Map.empty, offlineEdits = Map.empty\<rparr> alice ''nowhere''
     = (\<lparr>db = Map.empty, documentShadows = Map.empty, offlineEdits = Map.empty\<rparr>,
        [(ToSender, OfflineEditsSynced True 0)])"
proof -
  let ?st = "\<lparr>db = Map.empty, documentShadows = Map.empty, offlineEdits = Map.empty\<rparr>
               :: (string \<times> string) server"
  have a: "offlineEdits ?st (offline_key (uid alice) ''nowhere'') = None
           \<or> offlineEdits ?st (offline_key (uid alice) ''nowhere'') = Some []"
    by simp
  show ?thesis
    using sync_offline_edits_nothing_buffered [OF a, of "example_env 7 True True"]
    by simp
qed

end
